theory Spec2Isabelle
  imports Complex_Main
begin

section \<open>The pan gesture recognizer of goog-gestures\<close>

text \<open>
  A shallow embedding of \<^verbatim>\<open>src/goog/dom/gestures/panrecognizer.js\<close>.
  The recognizer object is a record that every operation takes and returns updated.

  Numbers. A JavaScript number is an IEEE 754 binary64 value. A finite one is modelled
  as the real it denotes, and every arithmetic operation of the source (\<^verbatim>\<open>+\<close>,
  \<^verbatim>\<open>-\<close>, \<^verbatim>\<open>*\<close>, \<^verbatim>\<open>/\<close>, \<^verbatim>\<open>Math.sqrt\<close>) as the exact operation followed by
  rounding to the nearest binary64 value, ties to even. Not modelled inside the
  recognizer: overflow to \<^verbatim>\<open>Infinity\<close> (results of magnitude \<open>2^1024\<close> and more),
  \<^verbatim>\<open>NaN\<close>, and the sign of zero. Where the source would compute \<^verbatim>\<open>0/0\<close> (the centroid
  of an empty contact list) the statements below ask for a non-empty list. Touch
  counts are integers. The argument of the two setters is a full JavaScript number,
  with \<^verbatim>\<open>NaN\<close> and the infinities, since \<^verbatim>\<open>value |= 0\<close> is defined on all of them.
\<close>

subsection \<open>Binary64 arithmetic\<close>

text \<open>Powers of two with an integer exponent.\<close>

definition pow2 :: "int \<Rightarrow> real" where
  "pow2 k = (if 0 \<le> k then 2 ^ nat k else 1 / 2 ^ nat (- k))"

text \<open>Rounding to the nearest integer, a tie going to the even one.\<close>

definition rne :: "real \<Rightarrow> int" where
  "rne y =
     (let f = \<lfloor>y\<rfloor>; d = y - of_int f
      in if d < 1 / 2 then f
         else if 1 / 2 < d then f + 1
         else if even f then f else f + 1)"

text \<open>
  The exponent of the unit in the last place: a normal number in \<open>[2^k, 2^(k+1))\<close>
  has 53 significant bits, so its last bit weighs \<open>2^(k-52)\<close>; below \<open>2^(-1022)\<close>
  the numbers are subnormal and the weight stays \<open>2^(-1074)\<close>.
\<close>

definition ulpExp :: "real \<Rightarrow> int" where
  "ulpExp x = max (- 1074) (\<lfloor>log 2 \<bar>x\<bar>\<rfloor> - 52)"

definition round64 :: "real \<Rightarrow> real" where
  "round64 x =
     (if x = 0 then 0
      else of_int (rne (x / pow2 (ulpExp x))) * pow2 (ulpExp x))"

text \<open>
  The operations of the source on numbers. ECMAScript leaves the precision of
  \<^verbatim>\<open>Math.sqrt\<close> to the implementation; it is taken as the correctly rounded square root
  of IEEE 754, which the engines provide.
\<close>

definition add64 :: "real \<Rightarrow> real \<Rightarrow> real" where
  "add64 a b = round64 (a + b)"

definition sub64 :: "real \<Rightarrow> real \<Rightarrow> real" where
  "sub64 a b = round64 (a - b)"

definition mul64 :: "real \<Rightarrow> real \<Rightarrow> real" where
  "mul64 a b = round64 (a * b)"

definition div64 :: "real \<Rightarrow> real \<Rightarrow> real" where
  "div64 a b = round64 (a / b)"

definition sqrt64 :: "real \<Rightarrow> real" where
  "sqrt64 a = round64 (sqrt a)"

text \<open>The reals that are binary64 values, and the whole numbers among them used below.\<close>

definition representable :: "real \<Rightarrow> bool" where
  "representable x \<longleftrightarrow> round64 x = x"

definition wholeNumber :: "real \<Rightarrow> bool" where
  "wholeNumber x \<longleftrightarrow> x = of_int \<lfloor>x\<rfloor> \<and> \<bar>x\<bar> \<le> 2 ^ 50"

subsection \<open>Gesture states and touch events\<close>

text \<open>
  Modelled from the spec: the enumeration \<^verbatim>\<open>goog.dom.gestures.State\<close> is required by
  the source file and defined elsewhere in the repository. The spec lists its values as
  POSSIBLE, BEGAN, CHANGED, ENDED, RECOGNIZED, FAILED, CANCELLED.
\<close>

datatype State = POSSIBLE | BEGAN | CHANGED | ENDED | RECOGNIZED | FAILED | CANCELLED

text \<open>
  A contact of the DOM touch event: a stable identifier and a position in page
  coordinates. The recognizer reads only \<^verbatim>\<open>e.targetTouches\<close> of an event.
\<close>

record Touch =
  touchIdentifier :: int
  pageX :: real
  pageY :: real

record TouchEvent =
  targetTouches :: "Touch list"

subsection \<open>The base class\<close>

text \<open>
  Modelled from the spec: the base class \<^verbatim>\<open>goog.dom.gestures.Recognizer\<close>
  (\<^verbatim>\<open>getState\<close>, \<^verbatim>\<open>setState\<close>, \<^verbatim>\<open>reset\<close>, \<^verbatim>\<open>updateLocation\<close>, \<^verbatim>\<open>getPageX\<close>,
  \<^verbatim>\<open>getPageY\<close>) is required by the source file and defined elsewhere in the repository.
  The spec gives it a state, the latest known centroid of the tracked contacts, and a
  callback invoked synchronously on every state change with the recognizer as argument.
  The field \<open>callbacks\<close> is the log of those invocations: the state the recognizer
  was put in, one entry per call of \<^verbatim>\<open>setState\<close>, oldest first.
\<close>

record Recognizer =
  state :: State
  centroidPageX :: real
  centroidPageY :: real
  callbacks :: "State list"

definition getState :: "'a Recognizer_scheme \<Rightarrow> State" where
  "getState r = state r"

definition getPageX :: "'a Recognizer_scheme \<Rightarrow> real" where
  "getPageX r = centroidPageX r"

definition getPageY :: "'a Recognizer_scheme \<Rightarrow> real" where
  "getPageY r = centroidPageY r"

text \<open>
  Modelled from the spec: a state change invokes the callback; setting CHANGED while
  CHANGED "re-fires" it, so every call of \<^verbatim>\<open>setState\<close> is logged.
\<close>

definition setState :: "State \<Rightarrow> 'a Recognizer_scheme \<Rightarrow> 'a Recognizer_scheme" where
  "setState v r = r\<lparr>state := v, callbacks := callbacks r @ [v]\<rparr>"

text \<open>
  Modelled from the spec: after a terminal state the recognizer returns to POSSIBLE.
\<close>

definition Recognizer_reset :: "'a Recognizer_scheme \<Rightarrow> 'a Recognizer_scheme" where
  "Recognizer_reset r = r\<lparr>state := POSSIBLE\<rparr>"

text \<open>
  Modelled from the spec: the centroid is the arithmetic mean position of the current
  set of tracked contacts, the coordinates added one contact after the other from 0 and
  the sum divided by the number of contacts. On an empty list JavaScript computes
  \<^verbatim>\<open>0/0 = NaN\<close>; HOL's division gives 0 there, so nothing below relies on the centroid
  of an empty list.
\<close>

definition centroidX :: "Touch list \<Rightarrow> real" where
  "centroidX touches = div64 (foldl add64 0 (map pageX touches)) (real (length touches))"

definition centroidY :: "Touch list \<Rightarrow> real" where
  "centroidY touches = div64 (foldl add64 0 (map pageY touches)) (real (length touches))"

definition updateLocation :: "Touch list \<Rightarrow> 'a Recognizer_scheme \<Rightarrow> 'a Recognizer_scheme" where
  "updateLocation touches r =
     r\<lparr>centroidPageX := centroidX touches, centroidPageY := centroidY touches\<rparr>"

subsection \<open>The pan recognizer\<close>

record PanRecognizer = Recognizer +
  minTouchCount :: int
  maxTouchCount :: int
  moveHysteresis :: real
  centroidStartX :: real
  centroidStartY :: real
  centroidShiftX :: real
  centroidShiftY :: real
  centroidDistance :: real

text \<open>
  The constructor. The base constructor is modelled from the spec (initial state
  POSSIBLE, nothing tracked, no callback invoked yet); the other fields are the
  source's defaults.
\<close>

definition PanRecognizer_new :: PanRecognizer where
  "PanRecognizer_new =
     \<lparr>state = POSSIBLE, centroidPageX = 0, centroidPageY = 0, callbacks = [],
      minTouchCount = 1, maxTouchCount = 999, moveHysteresis = 6,
      centroidStartX = 0, centroidStartY = 0,
      centroidShiftX = 0, centroidShiftY = 0,
      centroidDistance = 0\<rparr>"

definition getMinimumTouchCount :: "PanRecognizer \<Rightarrow> int" where
  "getMinimumTouchCount r = minTouchCount r"

definition getMaximumTouchCount :: "PanRecognizer \<Rightarrow> int" where
  "getMaximumTouchCount r = maxTouchCount r"

subsubsection \<open>The setters\<close>

text \<open>
  A JavaScript number, as the setters receive it.
\<close>

datatype number = Finite real | NaN | PosInfinity | NegInfinity

text \<open>
  \<^verbatim>\<open>value |= 0\<close> is ECMAScript's ToInt32: \<^verbatim>\<open>NaN\<close> and the infinities give 0; a finite
  number is truncated towards zero, reduced modulo \<open>2^32\<close> and read as a signed 32-bit
  integer.
\<close>

definition trunc :: "real \<Rightarrow> int" where
  "trunc x = (if x < 0 then \<lceil>x\<rceil> else \<lfloor>x\<rfloor>)"

definition ToInt32 :: "number \<Rightarrow> int" where
  "ToInt32 v =
     (case v of
        Finite x \<Rightarrow>
          (let k = trunc x mod 2 ^ 32
           in if 2 ^ 31 \<le> k then k - 2 ^ 32 else k)
      | NaN \<Rightarrow> 0
      | PosInfinity \<Rightarrow> 0
      | NegInfinity \<Rightarrow> 0)"

text \<open>
  \<^verbatim>\<open>goog.asserts.assert\<close> of the Closure Library throws an AssertionError when its
  condition is false (assertions enabled, as in an uncompiled build). A setter returns
  the outcome of the call together with the object as the call leaves it: an
  exception is thrown before the assignment, so the object is then the one passed in.
\<close>

datatype error = AssertionError

definition setMinimumTouchCount ::
    "number \<Rightarrow> PanRecognizer \<Rightarrow> (error + unit) \<times> PanRecognizer" where
  "setMinimumTouchCount v r =
     (if getState r \<noteq> POSSIBLE then (Inl AssertionError, r)
      else let v' = ToInt32 v
           in if \<not> 1 \<le> v' then (Inl AssertionError, r)
              else (Inr (), r\<lparr>minTouchCount := v'\<rparr>))"

definition setMaximumTouchCount ::
    "number \<Rightarrow> PanRecognizer \<Rightarrow> (error + unit) \<times> PanRecognizer" where
  "setMaximumTouchCount v r =
     (if getState r \<noteq> POSSIBLE then (Inl AssertionError, r)
      else let v' = ToInt32 v
           in if \<not> 1 \<le> v' then (Inl AssertionError, r)
              else (Inr (), r\<lparr>maxTouchCount := v'\<rparr>))"

subsubsection \<open>Derived values and reset\<close>

definition getTranslateX :: "PanRecognizer \<Rightarrow> real" where
  "getTranslateX r = add64 (sub64 (getPageX r) (centroidStartX r)) (centroidShiftX r)"

definition getTranslateY :: "PanRecognizer \<Rightarrow> real" where
  "getTranslateY r = add64 (sub64 (getPageY r) (centroidStartY r)) (centroidShiftY r)"

definition reset :: "PanRecognizer \<Rightarrow> PanRecognizer" where
  "reset r =
     Recognizer_reset
       (r\<lparr>centroidStartX := 0, centroidStartY := 0,
          centroidShiftX := 0, centroidShiftY := 0,
          centroidDistance := 0\<rparr>)"

subsubsection \<open>The four dispatch operations\<close>

definition touchesBegan :: "TouchEvent \<Rightarrow> PanRecognizer \<Rightarrow> PanRecognizer" where
  "touchesBegan e r =
     (let oldPageX = getPageX r;
          oldPageY = getPageY r;
          r1 = updateLocation (targetTouches e) r
      in if getState r1 = CHANGED then
           let r2 = r1\<lparr>centroidShiftX :=
                         sub64 (centroidShiftX r1) (sub64 (getPageX r1) oldPageX),
                       centroidShiftY :=
                         sub64 (centroidShiftY r1) (sub64 (getPageY r1) oldPageY)\<rparr>
           in if int (length (targetTouches e)) > maxTouchCount r2
              then reset (setState ENDED r2)
              else r2
         else r1)"

definition touchesMoved :: "TouchEvent \<Rightarrow> PanRecognizer \<Rightarrow> PanRecognizer" where
  "touchesMoved e r =
     (if int (length (targetTouches e)) < minTouchCount r \<or>
         int (length (targetTouches e)) > maxTouchCount r
      then r
      else
        let oldPageX = getPageX r;
            oldPageY = getPageY r;
            r1 = updateLocation (targetTouches e) r;
            pageX' = getPageX r1;
            pageY' = getPageY r1;
            dx = sub64 pageX' oldPageX;
            dy = sub64 pageY' oldPageY;
            r2 = r1\<lparr>centroidDistance :=
                      add64 (centroidDistance r1)
                        (sqrt64 (add64 (mul64 dx dx) (mul64 dy dy)))\<rparr>
        in if getState r2 = POSSIBLE \<and> centroidDistance r2 > moveHysteresis r2 then
             setState CHANGED
               (setState BEGAN
                  (r2\<lparr>centroidStartX := pageX', centroidStartY := pageY',
                      centroidShiftX := 0, centroidShiftY := 0\<rparr>))
           else if (dx \<noteq> 0 \<or> dy \<noteq> 0) \<and> getState r2 = CHANGED then
             setState CHANGED r2
           else r2)"

definition touchesEnded :: "TouchEvent \<Rightarrow> PanRecognizer \<Rightarrow> PanRecognizer" where
  "touchesEnded e r =
     (if getState r = CHANGED then
        if int (length (targetTouches e)) \<ge> minTouchCount r then
          let oldPageX = getPageX r;
              oldPageY = getPageY r;
              r1 = updateLocation (targetTouches e) r
          in r1\<lparr>centroidShiftX :=
                  sub64 (centroidShiftX r1) (sub64 (getPageX r1) oldPageX),
                centroidShiftY :=
                  sub64 (centroidShiftY r1) (sub64 (getPageY r1) oldPageY)\<rparr>
        else reset (setState ENDED r)
      else r)"

definition touchesCancelled :: "TouchEvent \<Rightarrow> PanRecognizer \<Rightarrow> PanRecognizer" where
  "touchesCancelled e r = reset (setState CANCELLED r)"

subsection \<open>Vocabulary of the properties\<close>

text \<open>
  Numbers of moderate magnitude: with operands up to \<open>2^500\<close> no operation of the
  recognizer comes near \<open>2^1024\<close>, so that none overflows in the source.
\<close>

definition moderate :: "real \<Rightarrow> bool" where
  "moderate x \<longleftrightarrow> \<bar>x\<bar> \<le> 2 ^ 500"

definition moderateEvent :: "TouchEvent \<Rightarrow> bool" where
  "moderateEvent e \<longleftrightarrow>
     list_all (\<lambda>t. moderate (pageX t) \<and> moderate (pageY t)) (targetTouches e)"

text \<open>
  What a change of the contact set does between a recognizer \<open>r\<close> and its successor
  \<open>r'\<close>: the movement of the centroid is subtracted from the shift accumulator and
  centroidStart stays, so that the translation differs by rounding errors only, and not
  at all when old centroid, new centroid, start and shift are whole numbers.
\<close>

definition keepsTranslation :: "PanRecognizer \<Rightarrow> PanRecognizer \<Rightarrow> bool" where
  "keepsTranslation r r' \<longleftrightarrow>
     centroidShiftX r' = sub64 (centroidShiftX r) (sub64 (getPageX r') (getPageX r))
   \<and> centroidShiftY r' = sub64 (centroidShiftY r) (sub64 (getPageY r') (getPageY r))
   \<and> centroidStartX r' = centroidStartX r
   \<and> centroidStartY r' = centroidStartY r
   \<and> \<bar>getTranslateX r' - getTranslateX r\<bar>
       \<le> (\<bar>getPageX r\<bar> + \<bar>getPageX r'\<bar> + \<bar>centroidStartX r\<bar> + \<bar>centroidShiftX r\<bar>) / 2 ^ 49
         + 1 / 2 ^ 1071
   \<and> \<bar>getTranslateY r' - getTranslateY r\<bar>
       \<le> (\<bar>getPageY r\<bar> + \<bar>getPageY r'\<bar> + \<bar>centroidStartY r\<bar> + \<bar>centroidShiftY r\<bar>) / 2 ^ 49
         + 1 / 2 ^ 1071
   \<and> (wholeNumber (getPageX r) \<and> wholeNumber (getPageX r')
        \<and> wholeNumber (centroidStartX r) \<and> wholeNumber (centroidShiftX r)
        \<longrightarrow> getTranslateX r' = getTranslateX r)
   \<and> (wholeNumber (getPageY r) \<and> wholeNumber (getPageY r')
        \<and> wholeNumber (centroidStartY r) \<and> wholeNumber (centroidShiftY r)
        \<longrightarrow> getTranslateY r' = getTranslateY r)"

section \<open>Properties\<close>

text \<open>Notation for concrete events: a contact at a position, an event with its contacts.\<close>

abbreviation touch :: "int \<Rightarrow> real \<Rightarrow> real \<Rightarrow> Touch" where
  "touch i x y \<equiv> \<lparr>touchIdentifier = i, pageX = x, pageY = y\<rparr>"

abbreviation event :: "Touch list \<Rightarrow> TouchEvent" where
  "event ts \<equiv> \<lparr>targetTouches = ts\<rparr>"

lemmas base_defs =
  getState_def getPageX_def getPageY_def setState_def Recognizer_reset_def
  updateLocation_def

lemmas flow_defs =
  touchesBegan_def touchesMoved_def touchesEnded_def touchesCancelled_def reset_def
  getTranslateX_def getTranslateY_def base_defs

lemmas arith_defs = add64_def sub64_def mul64_def div64_def sqrt64_def

lemmas dispatch_defs = flow_defs arith_defs

lemmas centroid_defs = centroidX_def centroidY_def

lemmas setter_defs = setMinimumTouchCount_def setMaximumTouchCount_def

lemmas moderate_defs = moderate_def moderateEvent_def

subsection \<open>Rounding to binary64\<close>

lemma pow2_powr: "pow2 k = 2 powr (of_int k)"
  by (simp add: pow2_def powr_real_of_int divide_inverse)

lemma pow2_pos [simp]: "0 < pow2 k"
  by (simp add: pow2_powr)

lemma pow2_nonzero [simp]: "pow2 k \<noteq> 0"
  using pow2_pos [of k] by linarith

lemma abs_pow2 [simp]: "\<bar>pow2 k\<bar> = pow2 k"
  using pow2_pos [of k] by linarith

lemma pow2_53: "pow2 53 = 2 ^ 53"
  by (simp add: pow2_def)

lemma pow2_52: "pow2 52 = 2 ^ 52"
  by (simp add: pow2_def)

lemma pow2_1: "pow2 1 = 2"
  by (simp add: pow2_def)

lemma pow2_add: "pow2 (a + b) = pow2 a * pow2 b"
  by (simp add: pow2_powr powr_add)

lemma pow2_mono: "a \<le> b \<Longrightarrow> pow2 a \<le> pow2 b"
  by (simp add: pow2_powr)

lemma pow2_nat: "0 \<le> k \<Longrightarrow> pow2 k = of_int (2 ^ nat k)"
  by (simp add: pow2_def)

lemma rne_of_int [simp]: "rne (of_int m) = m"
  by (simp add: rne_def)

lemma rne_error: "\<bar>of_int (rne y) - y\<bar> \<le> 1 / 2"
  unfolding rne_def Let_def by (auto; linarith)

lemma ulpExp_binade:
  assumes "pow2 k \<le> \<bar>x\<bar>" and "\<bar>x\<bar> < pow2 (k + 1)" and "- 1022 \<le> k"
  shows "ulpExp x = k - 52"
proof -
  have pos: "0 < \<bar>x\<bar>"
    using assms(1) pow2_pos [of k] by linarith
  have "\<lfloor>log 2 \<bar>x\<bar>\<rfloor> = k"
    using assms(1,2) pos by (simp add: floor_log_eq_powr_iff pow2_powr)
  then show ?thesis
    using assms(3) by (simp add: ulpExp_def)
qed

lemma round64_binade:
  assumes "pow2 k \<le> \<bar>x\<bar>" and "\<bar>x\<bar> < pow2 (k + 1)" and "- 1022 \<le> k"
  shows "round64 x = of_int (rne (x / pow2 (k - 52))) * pow2 (k - 52)"
proof -
  have "x \<noteq> 0"
    using assms(1) pow2_pos [of k] by (auto simp del: pow2_pos)
  then show ?thesis
    by (simp add: round64_def ulpExp_binade [OF assms])
qed

lemma round64_0 [simp]: "round64 0 = 0"
  by (simp add: round64_def)


lemma floor_log2_bounds:
  assumes "x \<noteq> 0"
  shows "pow2 \<lfloor>log 2 \<bar>x\<bar>\<rfloor> \<le> \<bar>x\<bar>" and "\<bar>x\<bar> < pow2 (\<lfloor>log 2 \<bar>x\<bar>\<rfloor> + 1)"
proof -
  have "0 < \<bar>x\<bar>" using assms by simp
  then have "2 powr \<lfloor>log 2 \<bar>x\<bar>\<rfloor> \<le> \<bar>x\<bar> \<and> \<bar>x\<bar> < 2 powr (\<lfloor>log 2 \<bar>x\<bar>\<rfloor> + 1)"
    using floor_log_eq_powr_iff [of "\<bar>x\<bar>" 2 "\<lfloor>log 2 \<bar>x\<bar>\<rfloor>"] by simp
  then show "pow2 \<lfloor>log 2 \<bar>x\<bar>\<rfloor> \<le> \<bar>x\<bar>" and "\<bar>x\<bar> < pow2 (\<lfloor>log 2 \<bar>x\<bar>\<rfloor> + 1)"
    by (simp_all add: pow2_powr add.commute)
qed

lemma pow2_less_cancel: "pow2 a < pow2 b \<longleftrightarrow> a < b"
  by (simp add: pow2_powr)

lemma pow2_le_cancel: "pow2 a \<le> pow2 b \<longleftrightarrow> a \<le> b"
  by (simp add: pow2_powr)

lemma pow2_diff: "pow2 (a - b) = pow2 a / pow2 b"
  by (simp add: pow2_powr powr_diff)

lemma pow2_int: "0 \<le> k \<Longrightarrow> \<exists>n::int. pow2 k = of_int n"
  using pow2_nat by blast

lemma ulpExp_ge: "- 1074 \<le> ulpExp x"
  by (simp add: ulpExp_def)

lemma ulpExp_floor: "\<lfloor>log 2 \<bar>x\<bar>\<rfloor> - 52 \<le> ulpExp x"
  by (simp add: ulpExp_def)

text \<open>The scaled argument of the rounding stays below \<open>2^53\<close>.\<close>

lemma scaled_bound:
  assumes "x \<noteq> 0"
  shows "\<bar>x / pow2 (ulpExp x)\<bar> < 2 ^ 53"
proof -
  let ?k = "\<lfloor>log 2 \<bar>x\<bar>\<rfloor>"
  have "\<bar>x\<bar> < pow2 (?k + 1)"
    using floor_log2_bounds(2) [OF assms] .
  also have "pow2 (?k + 1) \<le> pow2 (ulpExp x + 53)"
    using ulpExp_floor [of x] by (intro pow2_mono) linarith
  also have "pow2 (ulpExp x + 53) = pow2 (ulpExp x) * 2 ^ 53"
    by (simp only: pow2_add pow2_53)
  finally have "\<bar>x\<bar> < pow2 (ulpExp x) * 2 ^ 53" .
  then show ?thesis
    by (simp add: pos_divide_less_eq mult.commute)
qed

lemma rne_mono_bound:
  assumes "\<bar>y\<bar> \<le> of_int n"
  shows "\<bar>rne y\<bar> \<le> n"
proof -
  have "\<bar>of_int (rne y) - y\<bar> \<le> 1 / 2"
    by (rule rne_error)
  then have "\<bar>real_of_int (rne y)\<bar> \<le> of_int n + 1 / 2"
    using assms by linarith
  then have "real_of_int \<bar>rne y\<bar> < of_int (n + 1)"
    by simp
  then have "\<bar>rne y\<bar> < n + 1"
    using of_int_less_iff by blast
  then show ?thesis by simp
qed

lemma round64_form:
  assumes "x \<noteq> 0"
  shows "round64 x = of_int (rne (x / pow2 (ulpExp x))) * pow2 (ulpExp x)"
    and "\<bar>rne (x / pow2 (ulpExp x))\<bar> \<le> 2 ^ 53"
proof -
  show "round64 x = of_int (rne (x / pow2 (ulpExp x))) * pow2 (ulpExp x)"
    using assms by (simp add: round64_def)
  have "\<bar>x / pow2 (ulpExp x)\<bar> \<le> of_int (2 ^ 53)"
    using scaled_bound [OF assms] by simp
  then show "\<bar>rne (x / pow2 (ulpExp x))\<bar> \<le> 2 ^ 53"
    by (rule rne_mono_bound)
qed

text \<open>Every \<open>m * 2^e\<close> with \<open>|m| < 2^53\<close> and \<open>e \<ge> -1074\<close> is a fixed point.\<close>

lemma round64_grid_strict:
  assumes "\<bar>m\<bar> < 2 ^ 53" and "- 1074 \<le> e"
  shows "round64 (of_int m * pow2 e) = of_int m * pow2 e"
proof (cases "m = 0")
  case True
  then show ?thesis by simp
next
  case False
  let ?x = "of_int m * pow2 e"
  let ?k = "\<lfloor>log 2 \<bar>?x\<bar>\<rfloor>"
  have x0: "?x \<noteq> 0"
    using False by simp
  have "real_of_int \<bar>m\<bar> < 2 ^ 53"
    using assms(1) by (metis of_int_less_iff of_int_numeral of_int_power)
  then have "\<bar>?x\<bar> < 2 ^ 53 * pow2 e"
    by (simp add: abs_mult)
  also have "\<dots> = pow2 (53 + e)"
    by (simp only: pow2_add pow2_53)
  finally have "pow2 ?k < pow2 (53 + e)"
    using floor_log2_bounds(1) [OF x0] by linarith
  then have "?k - 52 \<le> e"
    by (simp add: pow2_less_cancel)
  then have le: "ulpExp ?x \<le> e"
    using assms(2) by (simp add: ulpExp_def)
  obtain n :: int where n: "pow2 (e - ulpExp ?x) = of_int n"
    using pow2_int [of "e - ulpExp ?x"] le by auto
  have "?x / pow2 (ulpExp ?x) = of_int m * pow2 (e - ulpExp ?x)"
    by (simp add: pow2_diff)
  also have "\<dots> = of_int (m * n)"
    by (simp add: n)
  finally have "rne (?x / pow2 (ulpExp ?x)) = m * n"
    by (simp only: rne_of_int)
  then have "round64 ?x = of_int (m * n) * pow2 (ulpExp ?x)"
    using x0 by (simp add: round64_def)
  also have "\<dots> = of_int m * (pow2 (e - ulpExp ?x) * pow2 (ulpExp ?x))"
    by (simp add: n)
  also have "pow2 (e - ulpExp ?x) * pow2 (ulpExp ?x) = pow2 e"
    by (simp add: pow2_add [symmetric])
  finally show ?thesis .
qed

lemma round64_grid:
  assumes "\<bar>m\<bar> \<le> 2 ^ 53" and "- 1074 \<le> e"
  shows "round64 (of_int m * pow2 e) = of_int m * pow2 e"
proof (cases "\<bar>m\<bar> < 2 ^ 53")
  case True
  then show ?thesis using assms(2) by (rule round64_grid_strict)
next
  case False
  then have "\<bar>m\<bar> = 9007199254740992" using assms(1) by simp
  then have m: "m = 2 * (m div 2)" and h: "\<bar>m div 2\<bar> < 2 ^ 53"
    by (simp_all, presburger+)
  have "real_of_int m = 2 * real_of_int (m div 2)"
    by (subst m) simp
  then have "of_int m * pow2 e = of_int (m div 2) * pow2 (e + 1)"
    by (simp add: pow2_add pow2_1)
  moreover have "round64 (of_int (m div 2) * pow2 (e + 1)) = of_int (m div 2) * pow2 (e + 1)"
    using h assms(2) by (intro round64_grid_strict) simp_all
  ultimately show ?thesis by simp
qed

lemma round64_of_int:
  assumes "\<bar>n\<bar> \<le> 2 ^ 53"
  shows "round64 (of_int n) = of_int n"
  using round64_grid [of n 0] assms by (simp add: pow2_def)

lemma round64_idem [simp]: "round64 (round64 x) = round64 x"
proof (cases "x = 0")
  case True
  then show ?thesis by simp
next
  case False
  show ?thesis
    unfolding round64_form(1) [OF False]
    by (rule round64_grid [OF round64_form(2) [OF False] ulpExp_ge])
qed

lemma round64_error: "\<bar>round64 x - x\<bar> \<le> \<bar>x\<bar> / 2 ^ 53 + 1 / 2 ^ 1075"
proof (cases "x = 0")
  case True
  then show ?thesis by simp
next
  case False
  let ?E = "ulpExp x"
  let ?y = "x / pow2 ?E"
  have "round64 x - x = (of_int (rne ?y) - ?y) * pow2 ?E"
    using False by (simp add: round64_def left_diff_distrib)
  then have "\<bar>round64 x - x\<bar> = \<bar>of_int (rne ?y) - ?y\<bar> * pow2 ?E"
    by (simp add: abs_mult)
  also have "\<dots> \<le> 1 / 2 * pow2 ?E"
    by (intro mult_right_mono rne_error less_imp_le pow2_pos)
  finally have half: "\<bar>round64 x - x\<bar> \<le> pow2 ?E / 2"
    by simp
  show ?thesis
  proof (cases "?E = - 1074")
    case True
    have "pow2 (- 1074) / 2 = 1 / 2 ^ 1075"
      by (simp add: pow2_def)
    moreover have "0 \<le> \<bar>x\<bar> / 2 ^ 53"
      by simp
    moreover have "\<bar>round64 x - x\<bar> \<le> pow2 (- 1074) / 2"
      using half True by simp
    ultimately show ?thesis
      by linarith
  next
    case False
    then have E: "?E = \<lfloor>log 2 \<bar>x\<bar>\<rfloor> - 52"
      by (simp add: ulpExp_def max_def split: if_splits)
    have "pow2 ?E * 2 ^ 52 = pow2 (?E + 52)"
      by (simp only: pow2_add pow2_52)
    also have "\<dots> \<le> \<bar>x\<bar>"
      using floor_log2_bounds(1) [OF \<open>x \<noteq> 0\<close>] by (simp add: E)
    finally have "pow2 ?E / 2 \<le> \<bar>x\<bar> / 2 ^ 53"
      by (simp add: field_simps)
    moreover have "(0::real) \<le> 1 / 2 ^ 1075"
      by simp
    ultimately show ?thesis
      using half by linarith
  qed
qed


lemma round64_numeral [simp]:
  "(numeral n :: int) \<le> 9007199254740992 \<Longrightarrow> round64 (numeral n) = numeral n"
  using round64_of_int [of "numeral n"] by simp

lemma round64_neg_numeral [simp]:
  "(numeral n :: int) \<le> 9007199254740992 \<Longrightarrow> round64 (- numeral n) = - numeral n"
  using round64_of_int [of "- numeral n"] by simp

lemma round64_1 [simp]: "round64 1 = 1"
  using round64_of_int [of 1] by simp

lemma rne_nearest:
  assumes "of_int m - 1 / 2 < y" and "y < of_int m + 1 / 2"
  shows "rne y = m"
proof -
  have "\<bar>of_int (rne y) - y\<bar> \<le> 1 / 2"
    by (rule rne_error)
  then have "\<bar>real_of_int (rne y) - of_int m\<bar> < 1"
    using assms by linarith
  then have "\<bar>real_of_int (rne y - m)\<bar> < real_of_int 1"
    by simp
  then have "\<bar>rne y - m\<bar> < 1"
    by (metis of_int_abs of_int_less_iff)
  then show ?thesis by simp
qed

text \<open>
  A number strictly within half a unit in the last place of \<open>m * 2^e\<close>, a double
  with a full significand that is not a power of two, rounds to it.
\<close>

lemma round64_nearest:
  assumes "2 ^ 52 < m" and "m < 2 ^ 53" and "- 1074 \<le> e"
    and "(of_int m - 1 / 2) * pow2 e < x" and "x < (of_int m + 1 / 2) * pow2 e"
  shows "round64 x = of_int m * pow2 e"
proof -
  have m_lo: "(2::real) ^ 52 \<le> of_int m - 1 / 2"
  proof -
    have "(2::int) ^ 52 + 1 \<le> m" using assms(1) by simp
    then have "real_of_int (2 ^ 52 + 1) \<le> of_int m" using of_int_le_iff by blast
    then show ?thesis by simp
  qed
  have m_hi: "of_int m + 1 / 2 \<le> (2::real) ^ 53"
  proof -
    have "m + 1 \<le> (2::int) ^ 53" using assms(2) by simp
    then have "real_of_int (m + 1) \<le> of_int (2 ^ 53)" using of_int_le_iff by blast
    then show ?thesis by simp
  qed
  have "pow2 (e + 52) = 2 ^ 52 * pow2 e"
    by (simp only: pow2_add pow2_52 mult.commute)
  also have "\<dots> \<le> (of_int m - 1 / 2) * pow2 e"
    by (rule mult_right_mono [OF m_lo less_imp_le [OF pow2_pos]])
  finally have lo: "pow2 (e + 52) < x"
    using assms(4) by linarith
  have "(of_int m + 1 / 2) * pow2 e \<le> 2 ^ 53 * pow2 e"
    by (rule mult_right_mono [OF m_hi less_imp_le [OF pow2_pos]])
  also have "\<dots> = pow2 (e + 52 + 1)"
    by (simp only: pow2_add pow2_52 pow2_1) simp
  finally have hi: "x < pow2 (e + 52 + 1)"
    using assms(5) by linarith
  have xpos: "0 < x"
    using lo pow2_pos [of "e + 52"] by linarith
  have "round64 x = of_int (rne (x / pow2 (e + 52 - 52))) * pow2 (e + 52 - 52)"
    using lo hi xpos assms(3) by (intro round64_binade) simp_all
  moreover have "rne (x / pow2 e) = m"
    using assms(4,5) by (intro rne_nearest) (simp_all add: pos_less_divide_eq pos_divide_less_eq)
  ultimately show ?thesis by simp
qed

lemma round64_sqrt_nearest:
  assumes "2 ^ 52 < m" and "m < 2 ^ 53" and "- 1074 \<le> e"
    and "((of_int m - 1 / 2) * pow2 e)\<^sup>2 < q" and "q < ((of_int m + 1 / 2) * pow2 e)\<^sup>2"
  shows "round64 (sqrt q) = of_int m * pow2 e"
proof -
  have m_pos: "(0::real) < of_int m - 1 / 2"
  proof -
    have "(0::int) < 2 ^ 52" by simp
    then have "(1::int) \<le> m" using assms(1) by linarith
    then have "real_of_int 1 \<le> of_int m" using of_int_le_iff by blast
    then show ?thesis by simp
  qed
  have lo0: "0 \<le> (of_int m - 1 / 2) * pow2 e"
    using m_pos by (intro mult_nonneg_nonneg less_imp_le pow2_pos) 
  have hi0: "0 < (of_int m + 1 / 2) * pow2 e"
    using m_pos by (intro mult_pos_pos pow2_pos) linarith
  have "(of_int m - 1 / 2) * pow2 e < sqrt q"
    using assms(4) by (rule real_less_rsqrt)
  moreover have "sqrt q < (of_int m + 1 / 2) * pow2 e"
    using assms(5) hi0 by (intro real_less_lsqrt) simp_all
  ultimately show ?thesis
    using assms(1,2,3) by (intro round64_nearest)
qed

lemma representable_round64 [simp]: "representable (round64 x)"
  by (simp add: representable_def)

lemma representable_grid:
  assumes "representable x"
  shows "\<exists>i::int. x = of_int i * pow2 (- 1074)"
proof (cases "x = 0")
  case True
  then have "x = of_int 0 * pow2 (- 1074)" by simp
  then show ?thesis by blast
next
  case False
  let ?E = "ulpExp x"
  obtain n :: int where n: "pow2 (?E + 1074) = of_int n"
    using pow2_int [of "?E + 1074"] ulpExp_ge [of x] by auto
  have split: "pow2 ?E = of_int n * pow2 (- 1074)"
    using pow2_add [of "?E + 1074" "- 1074"] by (simp add: n)
  have "x = of_int (rne (x / pow2 ?E)) * pow2 ?E"
    using assms round64_form(1) [OF False] by (simp add: representable_def)
  then have "x = of_int (rne (x / pow2 ?E)) * (of_int n * pow2 (- 1074))"
    by (simp only: split [symmetric])
  then have "x = of_int (rne (x / pow2 ?E) * n) * pow2 (- 1074)"
    by (simp add: mult.assoc)
  then show ?thesis by blast
qed

lemma round64_nonzero:
  assumes "pow2 (- 1074) \<le> \<bar>y\<bar>"
  shows "round64 y \<noteq> 0"
proof -
  have y0: "y \<noteq> 0"
  proof
    assume "y = 0"
    then have "pow2 (- 1074) \<le> 0" using assms by simp
    then show False using pow2_pos [of "- 1074"] by linarith
  qed
  let ?E = "ulpExp y"
  have "pow2 ?E \<le> \<bar>y\<bar>"
  proof (cases "?E = - 1074")
    case True
    then show ?thesis using assms by simp
  next
    case False
    then have "?E = \<lfloor>log 2 \<bar>y\<bar>\<rfloor> - 52"
      by (simp add: ulpExp_def max_def split: if_splits)
    then have "pow2 ?E \<le> pow2 \<lfloor>log 2 \<bar>y\<bar>\<rfloor>"
      by (intro pow2_mono) simp
    then show ?thesis
      using floor_log2_bounds(1) [OF y0] by linarith
  qed
  then have "1 \<le> \<bar>y\<bar> / pow2 ?E"
    by (simp add: pos_le_divide_eq)
  then have big: "1 \<le> \<bar>y / pow2 ?E\<bar>"
    by (simp add: abs_divide)
  have "rne (y / pow2 ?E) \<noteq> 0"
  proof
    assume "rne (y / pow2 ?E) = 0"
    then have "\<bar>0 - y / pow2 ?E\<bar> \<le> 1 / 2"
      using rne_error [of "y / pow2 ?E"] by simp
    then show False
      using big by linarith
  qed
  then show ?thesis
    using y0 by (simp add: round64_def)
qed

text \<open>The difference of two binary64 values rounds to zero only if they are equal.\<close>

lemma round64_diff_eq_0_iff:
  assumes "representable a" and "representable b"
  shows "round64 (a - b) = 0 \<longleftrightarrow> a = b"
proof
  assume z: "round64 (a - b) = 0"
  show "a = b"
  proof (rule ccontr)
    assume ne: "a \<noteq> b"
    obtain i j :: int where i: "a = of_int i * pow2 (- 1074)" and j: "b = of_int j * pow2 (- 1074)"
      using representable_grid [OF assms(1)] representable_grid [OF assms(2)] by blast
    have "i \<noteq> j" using ne i j by auto
    then have "1 \<le> \<bar>i - j\<bar>" by simp
    then have "real_of_int 1 \<le> of_int \<bar>i - j\<bar>" using of_int_le_iff by blast
    then have "1 \<le> \<bar>real_of_int (i - j)\<bar>"
      by simp
    then have "1 * pow2 (- 1074) \<le> \<bar>real_of_int (i - j)\<bar> * pow2 (- 1074)"
      by (rule mult_right_mono [OF _ less_imp_le [OF pow2_pos]])
    moreover have "a - b = of_int (i - j) * pow2 (- 1074)"
      by (simp add: i j left_diff_distrib)
    ultimately have "pow2 (- 1074) \<le> \<bar>a - b\<bar>"
      by (simp add: abs_mult)
    then show False
      using round64_nonzero z by blast
  qed
next
  assume "a = b"
  then show "round64 (a - b) = 0" by simp
qed

lemma round64_error_le:
  assumes "\<bar>x\<bar> \<le> B"
  shows "\<bar>round64 x - x\<bar> \<le> B / 9007199254740992 + 1 / 2 ^ 1075"
proof -
  have "\<bar>round64 x - x\<bar> \<le> \<bar>x\<bar> / 2 ^ 53 + 1 / 2 ^ 1075"
    by (rule round64_error)
  moreover have "\<bar>x\<bar> / 2 ^ 53 \<le> B / 9007199254740992"
    using assms by (simp add: divide_right_mono)
  ultimately show ?thesis
    by linarith
qed

subsection \<open>Roundings and square roots used below\<close>

text \<open>
  The roundings that occur in the concrete event sequences of this file, each
  evaluated in its binade, and the square roots, each enclosed between the squares of
  the two midpoints next to the result.
\<close>

lemma round64_fact_1: "round64 (7 / 5) = 3152519739159347 / 2251799813685248"
  by (subst round64_binade [of 0]) (simp_all add: pow2_def rne_def Let_def)

lemma round64_fact_2: "round64 (57 / 10) = 6417629469002957 / 1125899906842624"
  by (subst round64_binade [of 2]) (simp_all add: pow2_def rne_def Let_def)

lemma round64_fact_3: "round64 (3152519739159347 / 2251799813685248) = 3152519739159347 / 2251799813685248"
  by (subst round64_binade [of 0]) (simp_all add: pow2_def rne_def Let_def)

lemma round64_fact_4: "round64 (9938380705789317246726257466409 / 5070602400912917605986812821504) = 8827055269646171 / 4503599627370496"
  by (subst round64_binade [of 0]) (simp_all add: pow2_def rne_def Let_def)

lemma round64_fact_5: "round64 (8827055269646171 / 4503599627370496) = 8827055269646171 / 4503599627370496"
  by (subst round64_binade [of 0]) (simp_all add: pow2_def rne_def Let_def)

lemma sqrt_fact_6: "round64 (sqrt (8827055269646171 / 4503599627370496)) = 3152519739159347 / 2251799813685248"
  using round64_sqrt_nearest [of 6305039478318694 "- 52" "8827055269646171 / 4503599627370496"]
  by (simp add: pow2_def power2_eq_square)

lemma round64_fact_7: "round64 (6417629469002957 / 1125899906842624) = 6417629469002957 / 1125899906842624"
  by (subst round64_binade [of 2]) (simp_all add: pow2_def rne_def Let_def)

lemma round64_fact_8: "round64 (9682739198846567 / 2251799813685248) = 1210342399855821 / 281474976710656"
  by (subst round64_binade [of 2]) (simp_all add: pow2_def rne_def Let_def)

lemma round64_fact_9: "round64 (1464928724888748086241587584041 / 79228162514264337593543950336) = 5204472319380031 / 281474976710656"
  by (subst round64_binade [of 4]) (simp_all add: pow2_def rne_def Let_def)

lemma round64_fact_10: "round64 (5204472319380031 / 281474976710656) = 5204472319380031 / 281474976710656"
  by (subst round64_binade [of 4]) (simp_all add: pow2_def rne_def Let_def)

lemma sqrt_fact_11: "round64 (sqrt (5204472319380031 / 281474976710656)) = 1210342399855821 / 281474976710656"
  using round64_sqrt_nearest [of 4841369599423284 "- 50" "5204472319380031 / 281474976710656"]
  by (simp add: pow2_def power2_eq_square)

lemma round64_fact_12: "round64 (12835258938005915 / 2251799813685248) = 3208814734501479 / 562949953421312"
  by (subst round64_binade [of 2]) (simp_all add: pow2_def rne_def Let_def)

lemma round64_fact_13: "round64 (337769972052787 / 1125899906842624) = 337769972052787 / 1125899906842624"
  by (subst round64_binade [of "- 2"]) (simp_all add: pow2_def rne_def Let_def)

lemma round64_fact_14: "round64 (114088554020540511026714467369 / 1267650600228229401496703205376) = 6485183463413507 / 72057594037927936"
  by (subst round64_binade [of "- 4"]) (simp_all add: pow2_def rne_def Let_def)

lemma round64_fact_15: "round64 (6485183463413507 / 72057594037927936) = 6485183463413507 / 72057594037927936"
  by (subst round64_binade [of "- 4"]) (simp_all add: pow2_def rne_def Let_def)

lemma sqrt_fact_16: "round64 (sqrt (6485183463413507 / 72057594037927936)) = 337769972052787 / 1125899906842624"
  using round64_sqrt_nearest [of 5404319552844592 "- 54" "6485183463413507 / 72057594037927936"]
  by (simp add: pow2_def power2_eq_square)

lemma round64_fact_17: "round64 (6755399441055745 / 1125899906842624) = 6755399441055745 / 1125899906842624"
  by (subst round64_binade [of 2]) (simp_all add: pow2_def rne_def Let_def)

lemma round64_fact_18: "round64 (601 / 100) = 3383329220062085 / 562949953421312"
  by (subst round64_binade [of 2]) (simp_all add: pow2_def rne_def Let_def)

lemma sqrt_fact_19: "sqrt (36) = 6"
  by (rule real_sqrt_unique) (simp_all add: power2_eq_square)

lemma round64_fact_20: "round64 (3383329220062085 / 562949953421312) = 3383329220062085 / 562949953421312"
  by (subst round64_binade [of 2]) (simp_all add: pow2_def rne_def Let_def)

lemma round64_fact_21: "round64 (5629499534213 / 562949953421312) = 5629499534213 / 562949953421312"
  by (subst round64_binade [of "- 7"]) (simp_all add: pow2_def rne_def Let_def)

lemma round64_fact_22: "round64 (31691265005704383957529369 / 316912650057057350374175801344) = 3689348814741753 / 36893488147419103232"
  by (subst round64_binade [of "- 14"]) (simp_all add: pow2_def rne_def Let_def)

lemma round64_fact_23: "round64 (3689348814741753 / 36893488147419103232) = 3689348814741753 / 36893488147419103232"
  by (subst round64_binade [of "- 14"]) (simp_all add: pow2_def rne_def Let_def)

lemma sqrt_fact_24: "round64 (sqrt (3689348814741753 / 36893488147419103232)) = 5629499534213 / 562949953421312"
  using round64_sqrt_nearest [of 5764607523034112 "- 59" "3689348814741753 / 36893488147419103232"]
  by (simp add: pow2_def power2_eq_square)

lemma round64_fact_25: "round64 (1 / 1152921504606846976) = 1 / 1152921504606846976"
  by (subst round64_binade [of "- 60"]) (simp_all add: pow2_def rne_def Let_def)

lemma round64_fact_26: "round64 (1 / 1329227995784915872903807060280344576) = 1 / 1329227995784915872903807060280344576"
  by (subst round64_binade [of "- 120"]) (simp_all add: pow2_def rne_def Let_def)

lemma sqrt_fact_27: "sqrt (1 / 1329227995784915872903807060280344576) = 1 / 1152921504606846976"
  by (rule real_sqrt_unique) (simp_all add: power2_eq_square)

lemma round64_fact_28: "round64 (6917529027641081857 / 1152921504606846976) = 6"
  by (subst round64_binade [of 2]) (simp_all add: pow2_def rne_def Let_def)

lemma sqrt_fact_29: "sqrt (49) = 7"
  by (rule real_sqrt_unique) (simp_all add: power2_eq_square)

lemma round64_fact_30: "round64 (10 / 3) = 7505999378950827 / 2251799813685248"
  by (subst round64_binade [of 1]) (simp_all add: pow2_def rne_def Let_def)

lemma round64_fact_31: "round64 (- (10508399130531157 / 2251799813685248)) = - (2627099782632789 / 562949953421312)"
  by (subst round64_binade [of 2]) (simp_all add: pow2_def rne_def Let_def)

lemma round64_fact_32: "round64 (2627099782632789 / 562949953421312) = 2627099782632789 / 562949953421312"
  by (subst round64_binade [of 2]) (simp_all add: pow2_def rne_def Let_def)

lemma round64_fact_33: "round64 (- (8256599316845909 / 2251799813685248)) = - (8256599316845909 / 2251799813685248)"
  by (subst round64_binade [of 1]) (simp_all add: pow2_def rne_def Let_def)

lemma round64_fact_34: "round64 (2251799813685247 / 2251799813685248) = 2251799813685247 / 2251799813685248"
  by (subst round64_binade [of "- 1"]) (simp_all add: pow2_def rne_def Let_def)

lemmas rounding_facts =
  round64_fact_1 round64_fact_2 round64_fact_3 round64_fact_4 round64_fact_5
  sqrt_fact_6 round64_fact_7 round64_fact_8 round64_fact_9 round64_fact_10 sqrt_fact_11
  round64_fact_12 round64_fact_13 round64_fact_14 round64_fact_15 sqrt_fact_16
  round64_fact_17 round64_fact_18 sqrt_fact_19 round64_fact_20 round64_fact_21
  round64_fact_22 round64_fact_23 sqrt_fact_24 round64_fact_25 round64_fact_26
  sqrt_fact_27 round64_fact_28 sqrt_fact_29 round64_fact_30 round64_fact_31
  round64_fact_32 round64_fact_33 round64_fact_34

lemma sqrt_9: "sqrt 9 = 3"
  by (rule real_sqrt_unique) simp_all

lemma sqrt_16: "sqrt 16 = 4"
  by (rule real_sqrt_unique) simp_all

lemma sqrt_25: "sqrt 25 = 5"
  by (rule real_sqrt_unique) simp_all

lemma sqrt_36: "sqrt 36 = 6"
  by (rule real_sqrt_unique) simp_all

lemma sqrt_64: "sqrt 64 = 8"
  by (rule real_sqrt_unique) simp_all

subsection \<open>Folding a centroid delta into the shift\<close>

text \<open>
  Folding the centroid delta into the shift: the translation computed from the new
  centroid and the new shift differs from the old one by rounding errors only.
\<close>

lemma shift_fold_error:
  "\<bar>add64 (sub64 p' s) (sub64 h (sub64 p' p)) - add64 (sub64 p s) h\<bar>
     \<le> (\<bar>p\<bar> + \<bar>p'\<bar> + \<bar>s\<bar> + \<bar>h\<bar>) / 2 ^ 49 + 1 / 2 ^ 1071"
proof -
  define t :: real where "t = 1 / 2 ^ 1075"
  define M where "M = \<bar>p\<bar> + \<bar>p'\<bar> + \<bar>s\<bar> + \<bar>h\<bar>"
  define u where "u = M / 9007199254740992"
  define v where "v = t / 9007199254740992"
  define a where "a = round64 (p' - p)"
  define h' where "h' = round64 (h - a)"
  define b where "b = round64 (p' - s)"
  define c where "c = round64 (p - s)"
  define T' where "T' = round64 (b + h')"
  define T where "T = round64 (c + h)"
  have t0: "0 \<le> t" by (simp add: t_def)
  have M0: "0 \<le> M" by (simp add: M_def)
  have u0: "0 \<le> u" and uM: "u \<le> M"
    using M0 by (simp_all add: u_def field_simps)
  have v0: "0 \<le> v" and vt: "v \<le> t"
    using t0 by (simp_all add: v_def field_simps)
  have t16: "1 / 2 ^ 1071 = 16 * t"
    by (simp add: t_def)
  have hM: "\<bar>h\<bar> \<le> M" by (simp add: M_def)
  have "\<bar>p' - p\<bar> \<le> M" by (simp add: M_def)
  from round64_error_le [OF this]
  have a1: "\<bar>a - (p' - p)\<bar> \<le> u + t"
    by (simp add: a_def t_def u_def)
  have "\<bar>h - (p' - p)\<bar> \<le> M" by (simp add: M_def)
  then have "\<bar>h - a\<bar> \<le> 2 * M + t"
    using a1 uM by linarith
  from round64_error_le [OF this]
  have h1: "\<bar>h' - (h - a)\<bar> \<le> 2 * u + v + t"
    by (simp add: h'_def t_def u_def v_def add_divide_distrib)
  have "\<bar>p' - s\<bar> \<le> M" by (simp add: M_def)
  from round64_error_le [OF this]
  have b1: "\<bar>b - (p' - s)\<bar> \<le> u + t"
    by (simp add: b_def t_def u_def)
  have "\<bar>p - s\<bar> \<le> M" by (simp add: M_def)
  from round64_error_le [OF this]
  have c1: "\<bar>c - (p - s)\<bar> \<le> u + t"
    by (simp add: c_def t_def u_def)
  have u4: "4 * u \<le> M"
    using M0 by (simp add: u_def field_simps)
  have psh: "\<bar>p - s + h\<bar> \<le> M" by (simp add: M_def)
  have "\<bar>b + h'\<bar> \<le> 2 * M + 5 * t"
    using a1 h1 b1 psh u4 vt t0 by linarith
  from round64_error_le [OF this]
  have T'1: "\<bar>T' - (b + h')\<bar> \<le> 2 * u + 5 * v + t"
    by (simp add: T'_def t_def u_def v_def add_divide_distrib)
  have "\<bar>c + h\<bar> \<le> 2 * M + t"
    using c1 psh uM by linarith
  from round64_error_le [OF this]
  have T1: "\<bar>T - (c + h)\<bar> \<le> 2 * u + v + t"
    by (simp add: T_def t_def u_def v_def add_divide_distrib)
  have "\<bar>T' - T\<bar> \<le> 16 * u + 16 * t"
    using a1 h1 b1 c1 T'1 T1 u0 v0 vt t0 by linarith
  also have "16 * u = M / 2 ^ 49"
    by (simp add: u_def)
  finally have "\<bar>T' - T\<bar> \<le> M / 2 ^ 49 + 1 / 2 ^ 1071"
    by (simp only: t16)
  then show ?thesis
    unfolding arith_defs T'_def T_def b_def c_def h'_def a_def M_def .
qed

lemma wholeNumber_cases:
  assumes "wholeNumber x"
  obtains i :: int where "x = of_int i" and "\<bar>i\<bar> \<le> 2 ^ 50"
proof -
  from assms have x: "x = of_int \<lfloor>x\<rfloor>" and b: "\<bar>x\<bar> \<le> 2 ^ 50"
    by (simp_all add: wholeNumber_def)
  have "\<bar>real_of_int \<lfloor>x\<rfloor>\<bar> \<le> real_of_int (2 ^ 50)"
    using x b by simp
  then have "\<bar>\<lfloor>x\<rfloor>\<bar> \<le> 2 ^ 50"
    by (metis of_int_abs of_int_le_iff)
  then show ?thesis using x that by blast
qed

lemma round64_int_small:
  "\<bar>n\<bar> \<le> 2 ^ 52 \<Longrightarrow> round64 (of_int n) = of_int n"
  by (rule round64_of_int) simp

text \<open>On whole numbers of moderate size the fold is exact.\<close>

lemma shift_fold_exact:
  assumes "wholeNumber p" and "wholeNumber p'" and "wholeNumber s" and "wholeNumber h"
  shows "add64 (sub64 p' s) (sub64 h (sub64 p' p)) = add64 (sub64 p s) h"
proof -
  obtain ip where p: "p = of_int ip" and ip: "\<bar>ip\<bar> \<le> 2 ^ 50"
    using assms(1) by (rule wholeNumber_cases)
  obtain iq where q: "p' = of_int iq" and iq: "\<bar>iq\<bar> \<le> 2 ^ 50"
    using assms(2) by (rule wholeNumber_cases)
  obtain js where s: "s = of_int js" and js: "\<bar>js\<bar> \<le> 2 ^ 50"
    using assms(3) by (rule wholeNumber_cases)
  obtain ih where h: "h = of_int ih" and ih: "\<bar>ih\<bar> \<le> 2 ^ 50"
    using assms(4) by (rule wholeNumber_cases)
  have a: "round64 (of_int iq - of_int ip) = of_int (iq - ip)"
    using round64_int_small [of "iq - ip"] ip iq by simp
  have h': "round64 (of_int ih - of_int (iq - ip)) = of_int (ih - (iq - ip))"
    using round64_int_small [of "ih - (iq - ip)"] ip iq ih by simp
  have b: "round64 (of_int iq - of_int js) = of_int (iq - js)"
    using round64_int_small [of "iq - js"] js iq by simp
  have c: "round64 (of_int ip - of_int js) = of_int (ip - js)"
    using round64_int_small [of "ip - js"] js ip by simp
  have "of_int (iq - js) + of_int (ih - (iq - ip)) = (of_int (ip - js) + of_int ih :: real)"
    by simp
  then show ?thesis
    by (simp only: arith_defs p q s h a h' b c)
qed

lemma keepsTranslation_fold:
  assumes "getPageX r' = px'" and "getPageY r' = py'"
    and "centroidShiftX r' = sub64 (centroidShiftX r) (sub64 px' (getPageX r))"
    and "centroidShiftY r' = sub64 (centroidShiftY r) (sub64 py' (getPageY r))"
    and "centroidStartX r' = centroidStartX r" and "centroidStartY r' = centroidStartY r"
  shows "keepsTranslation r r'"
  unfolding keepsTranslation_def getTranslateX_def getTranslateY_def assms
  using shift_fold_error [of px' "centroidStartX r" "centroidShiftX r" "getPageX r"]
    shift_fold_error [of py' "centroidStartY r" "centroidShiftY r" "getPageY r"]
    shift_fold_exact [of "getPageX r" px' "centroidStartX r" "centroidShiftX r"]
    shift_fold_exact [of "getPageY r" py' "centroidStartY r" "centroidShiftY r"]
  by simp

lemma representable_centroid [simp]:
  "representable (centroidX ts)" "representable (centroidY ts)"
  by (simp_all add: centroid_defs div64_def)

lemma sub64_eq_0_iff:
  "representable a \<Longrightarrow> representable b \<Longrightarrow> sub64 a b = 0 \<longleftrightarrow> a = b"
  by (simp add: sub64_def round64_diff_eq_0_iff)

subsection \<open>Truncation and ToInt32\<close>

text \<open>
  On the numbers whose truncation fits in 32 signed bits, \<^verbatim>\<open>value | 0\<close> is the
  truncation towards zero.
\<close>

lemma ToInt32_in_range:
  assumes "- 2147483649 < x" and "x < 2147483648"
  shows "ToInt32 (Finite x) = trunc x"
proof -
  have lo: "- 2147483648 \<le> trunc x"
    using assms(1) unfolding trunc_def by (auto simp: le_floor_iff le_ceiling_iff)
  have hi: "trunc x < 2147483648"
    using assms(2) unfolding trunc_def by (auto simp: floor_less_iff ceiling_less_iff)
  show ?thesis
  proof (cases "0 \<le> trunc x")
    case True
    then have "trunc x mod 2 ^ 32 = trunc x"
      using hi by simp
    then show ?thesis
      using hi by (simp add: ToInt32_def Let_def)
  next
    case False
    then have "(trunc x + 2 ^ 32) mod 2 ^ 32 = trunc x + 2 ^ 32"
      using lo by (intro mod_pos_pos_trivial) simp_all
    then have "trunc x mod 2 ^ 32 = trunc x + 2 ^ 32"
      by simp
    then show ?thesis
      using lo False by (simp add: ToInt32_def Let_def)
  qed
qed

lemma trunc_below_one: "x < 1 \<Longrightarrow> trunc x \<le> 0"
  unfolding trunc_def by (auto simp: floor_le_iff ceiling_le_iff)

lemma setMinimum_2_new:
  "setMinimumTouchCount (Finite 2) PanRecognizer_new =
     (Inr (), PanRecognizer_new\<lparr>minTouchCount := 2\<rparr>)"
  by (simp add: setter_defs ToInt32_def trunc_def getState_def PanRecognizer_new_def)

lemma setMaximum_1_new:
  "setMaximumTouchCount (Finite 1) PanRecognizer_new =
     (Inr (), PanRecognizer_new\<lparr>maxTouchCount := 1\<rparr>)"
  by (simp add: setter_defs ToInt32_def trunc_def getState_def PanRecognizer_new_def)

subsection \<open>A recognizer limited to one contact\<close>

lemma limited_began:
  "touchesBegan (event [touch 0 0 0]) (PanRecognizer_new\<lparr>maxTouchCount := 1\<rparr>) =
     PanRecognizer_new\<lparr>maxTouchCount := 1\<rparr>"
  by (simp add: dispatch_defs centroid_defs PanRecognizer_new_def)

lemma limited_move_8:
  "touchesMoved (event [touch 0 0 8]) (PanRecognizer_new\<lparr>maxTouchCount := 1\<rparr>) =
     PanRecognizer_new\<lparr>state := CHANGED, centroidPageY := 8, callbacks := [BEGAN, CHANGED],
       maxTouchCount := 1, centroidStartY := 8, centroidDistance := 8\<rparr>"
  by (simp add: dispatch_defs centroid_defs PanRecognizer_new_def sqrt_64)

lemma limited_move_3:
  "touchesMoved (event [touch 0 0 3]) (PanRecognizer_new\<lparr>maxTouchCount := 1\<rparr>) =
     PanRecognizer_new\<lparr>centroidPageY := 3, maxTouchCount := 1, centroidDistance := 3\<rparr>"
  by (simp add: dispatch_defs centroid_defs PanRecognizer_new_def sqrt_9)

subsection \<open>The scenario of the spec: one contact, two moves\<close>

lemma scenario_began:
  "touchesBegan (event [touch 0 100 100]) PanRecognizer_new =
     PanRecognizer_new\<lparr>centroidPageX := 100, centroidPageY := 100\<rparr>"
  by (simp add: dispatch_defs centroid_defs PanRecognizer_new_def)

lemma scenario_first_move:
  "touchesMoved (event [touch 0 100 108])
     (PanRecognizer_new\<lparr>centroidPageX := 100, centroidPageY := 100\<rparr>) =
   PanRecognizer_new\<lparr>state := CHANGED, centroidPageX := 100, centroidPageY := 108,
     callbacks := [BEGAN, CHANGED], centroidStartX := 100, centroidStartY := 108,
     centroidDistance := 8\<rparr>"
  by (simp add: dispatch_defs centroid_defs PanRecognizer_new_def sqrt_64)

lemma scenario_second_move:
  "touchesMoved (event [touch 0 105 108])
     (PanRecognizer_new\<lparr>state := CHANGED, centroidPageX := 100, centroidPageY := 108,
        callbacks := [BEGAN, CHANGED], centroidStartX := 100, centroidStartY := 108,
        centroidDistance := 8\<rparr>) =
   PanRecognizer_new\<lparr>state := CHANGED, centroidPageX := 105, centroidPageY := 108,
     callbacks := [BEGAN, CHANGED, CHANGED], centroidStartX := 100, centroidStartY := 108,
     centroidDistance := 13\<rparr>"
  by (simp add: dispatch_defs centroid_defs PanRecognizer_new_def sqrt_25)

text \<open>
  C1 (as the code has it). A Pan recognizer with default parameters, one contact
  starting at (100,100). The move to (100,108) takes the recognizer from POSSIBLE through
  BEGAN to CHANGED within that one dispatch; since centroidStart is snapped to the
  current centroid (100,108) at that moment, getTranslateX() = 0 and
  getTranslateY() = 0 afterwards. The move to (105,108) re-fires CHANGED, and
  afterwards getTranslateX() = 5 and getTranslateY() = 0.
\<close>

theorem pan_scenario_translation:
  "(let r1 = touchesBegan (event [touch 0 100 100]) PanRecognizer_new;
        r2 = touchesMoved (event [touch 0 100 108]) r1;
        r3 = touchesMoved (event [touch 0 105 108]) r2
    in getState r1 = POSSIBLE \<and> callbacks r1 = []
     \<and> getState r2 = CHANGED \<and> callbacks r2 = [BEGAN, CHANGED]
     \<and> getTranslateX r2 = 0 \<and> getTranslateY r2 = 0
     \<and> getState r3 = CHANGED \<and> callbacks r3 = [BEGAN, CHANGED, CHANGED]
     \<and> getTranslateX r3 = 5 \<and> getTranslateY r3 = 0)"
  unfolding Let_def scenario_began scenario_first_move scenario_second_move
  by (simp add: getTranslateX_def getTranslateY_def arith_defs base_defs
        PanRecognizer_new_def)

text \<open>
  C1 at its end point: after the two moves the recognizer is in CHANGED, three callbacks
  have been invoked, and the translation is (5,0).
\<close>

theorem pan_scenario_translation_witness:
  "getState
     (touchesMoved (event [touch 0 105 108])
        (touchesMoved (event [touch 0 100 108])
           (touchesBegan (event [touch 0 100 100]) PanRecognizer_new))) = CHANGED
   \<and> callbacks
     (touchesMoved (event [touch 0 105 108])
        (touchesMoved (event [touch 0 100 108])
           (touchesBegan (event [touch 0 100 100]) PanRecognizer_new))) =
       [BEGAN, CHANGED, CHANGED]
   \<and> getTranslateX
     (touchesMoved (event [touch 0 105 108])
        (touchesMoved (event [touch 0 100 108])
           (touchesBegan (event [touch 0 100 100]) PanRecognizer_new))) = 5
   \<and> getTranslateY
     (touchesMoved (event [touch 0 105 108])
        (touchesMoved (event [touch 0 100 108])
           (touchesBegan (event [touch 0 100 100]) PanRecognizer_new))) = 0"
  using pan_scenario_translation by (simp add: Let_def)

text \<open>
  C1 as stated fails: after the move to (100,108) the claim expects
  getTranslateY() = 8, the code returns 0.
\<close>

theorem pan_scenario_translateY_counterexample:
  "getTranslateY
     (touchesMoved (event [touch 0 100 108])
        (touchesBegan (event [touch 0 100 100]) PanRecognizer_new)) \<noteq> 8"
  unfolding scenario_began scenario_first_move
  by (simp add: getTranslateY_def arith_defs base_defs PanRecognizer_new_def)

subsection \<open>Beginning: the hysteresis threshold\<close>

text \<open>
  C2 (as the code has it). A touchesMoved dispatch with a contact count within
  [minimumTouchCount, maximumTouchCount], on a recognizer in POSSIBLE: the rounded
  distance between the old and the new centroid is added, with rounding, to
  centroidDistance, and BEGAN fires if and only if the accumulated value strictly
  exceeds moveHysteresis. When it fires, centroidStart is the current centroid, the
  shift accumulator is zero, and the callback is invoked for BEGAN and then for CHANGED
  in that dispatch; when it does not, no callback is invoked and the recognizer stays in
  POSSIBLE. The contact list is not empty and the magnitudes are moderate.
\<close>

theorem touchesMoved_possible_hysteresis:
  assumes "getState r = POSSIBLE"
    and "minTouchCount r \<le> int (length (targetTouches e))"
    and "int (length (targetTouches e)) \<le> maxTouchCount r"
    and "targetTouches e \<noteq> []"
    and "moderateEvent e"
    and "moderate (getPageX r)" and "moderate (getPageY r)"
    and "moderate (centroidDistance r)"
  shows "(let r' = touchesMoved e r;
              dx = sub64 (getPageX r') (getPageX r);
              dy = sub64 (getPageY r') (getPageY r)
          in getPageX r' = centroidX (targetTouches e)
           \<and> getPageY r' = centroidY (targetTouches e)
           \<and> centroidDistance r' =
               add64 (centroidDistance r) (sqrt64 (add64 (mul64 dx dx) (mul64 dy dy)))
           \<and> (if moveHysteresis r < centroidDistance r'
               then callbacks r' = callbacks r @ [BEGAN, CHANGED]
                  \<and> getState r' = CHANGED
                  \<and> centroidStartX r' = getPageX r' \<and> centroidStartY r' = getPageY r'
                  \<and> centroidShiftX r' = 0 \<and> centroidShiftY r' = 0
               else callbacks r' = callbacks r
                  \<and> getState r' = POSSIBLE
                  \<and> centroidStartX r' = centroidStartX r
                  \<and> centroidStartY r' = centroidStartY r
                  \<and> centroidShiftX r' = centroidShiftX r
                  \<and> centroidShiftY r' = centroidShiftY r))"
  using assms by (simp add: flow_defs Let_def)

text \<open>
  C2 at the threshold, moveHysteresis = 6: a move from (0,0) to (0,6) accumulates
  exactly 6 and BEGAN does not fire; the next move, to (0,6.01), accumulates 6.01 and
  BEGAN and CHANGED fire on that event. The number 6.01 is the binary64 value the
  literal denotes.
\<close>

theorem touchesMoved_possible_hysteresis_witness:
  "(let r1 = touchesBegan (event [touch 0 0 0]) PanRecognizer_new;
        r2 = touchesMoved (event [touch 0 0 6]) r1;
        r3 = touchesMoved (event [touch 0 0 (round64 6.01)]) r2
    in moveHysteresis r1 = 6 \<and> getState r1 = POSSIBLE
     \<and> minTouchCount r1 \<le> 1 \<and> 1 \<le> maxTouchCount r1
     \<and> moderateEvent (event [touch 0 0 6]) \<and> moderateEvent (event [touch 0 0 (round64 6.01)])
     \<and> moderate (getPageX r1) \<and> moderate (getPageY r1) \<and> moderate (centroidDistance r1)
     \<and> moderate (getPageX r2) \<and> moderate (getPageY r2) \<and> moderate (centroidDistance r2)
     \<and> centroidDistance r2 = 6 \<and> getState r2 = POSSIBLE \<and> callbacks r2 = []
     \<and> centroidDistance r3 = round64 6.01 \<and> getState r3 = CHANGED
     \<and> callbacks r3 = [BEGAN, CHANGED]
     \<and> centroidStartX r3 = 0 \<and> centroidStartY r3 = round64 6.01
     \<and> centroidShiftX r3 = 0 \<and> centroidShiftY r3 = 0)"
  using touchesMoved_possible_hysteresis
      [of "touchesBegan (event [touch 0 0 0]) PanRecognizer_new" "event [touch 0 0 6]"]
    touchesMoved_possible_hysteresis
      [of "PanRecognizer_new\<lparr>centroidPageY := 6, centroidDistance := 6\<rparr>"
          "event [touch 0 0 (round64 6.01)]"]
  by (simp add: dispatch_defs centroid_defs PanRecognizer_new_def sqrt_36 rounding_facts
        moderate_defs Let_def)

text \<open>
  C2 as stated, with the path length taken exactly, fails in both directions. The
  vertical path 0, 1.4, 5.7, 6 has length exactly 6, and the accumulated value is
  6.000000000000001: BEGAN fires on the third move. The path (0,0), (0,6),
  (\<open>2^-60\<close>,6) is longer than 6, and the accumulated value is 6: BEGAN does not fire.
\<close>

theorem touchesMoved_exact_length_counterexample:
  "\<bar>round64 1.4 - 0\<bar> + \<bar>round64 5.7 - round64 1.4\<bar> + \<bar>6 - round64 5.7\<bar> = 6
   \<and> moveHysteresis PanRecognizer_new = 6
   \<and> callbacks
        (touchesMoved (event [touch 0 0 (round64 5.7)])
           (touchesMoved (event [touch 0 0 (round64 1.4)])
              (touchesBegan (event [touch 0 0 0]) PanRecognizer_new))) = []
   \<and> centroidDistance
        (touchesMoved (event [touch 0 0 6])
           (touchesMoved (event [touch 0 0 (round64 5.7)])
              (touchesMoved (event [touch 0 0 (round64 1.4)])
                 (touchesBegan (event [touch 0 0 0]) PanRecognizer_new)))) =
       6755399441055745 / 1125899906842624
   \<and> callbacks
        (touchesMoved (event [touch 0 0 6])
           (touchesMoved (event [touch 0 0 (round64 5.7)])
              (touchesMoved (event [touch 0 0 (round64 1.4)])
                 (touchesBegan (event [touch 0 0 0]) PanRecognizer_new)))) = [BEGAN, CHANGED]
   \<and> sqrt (0 * 0 + 6 * 6) + sqrt (1 / 2 ^ 60 * (1 / 2 ^ 60) + 0 * 0) > 6
   \<and> callbacks
        (touchesMoved (event [touch 0 (1 / 2 ^ 60) 6])
           (touchesMoved (event [touch 0 0 6])
              (touchesBegan (event [touch 0 0 0]) PanRecognizer_new))) = []"
  by (simp add: dispatch_defs centroid_defs PanRecognizer_new_def sqrt_36 rounding_facts
        Let_def)

subsection \<open>A change of the contact set while CHANGED\<close>

text \<open>
  C3 (as the code has it). While the recognizer is in CHANGED, a touchesBegan event
  whose contact count does not exceed maximumTouchCount, and a touchesEnded event whose
  remaining contact count is at least minimumTouchCount, move the tracked centroid to
  that of the event, invoke no callback, and subtract the movement of the centroid from
  the shift accumulator. getTranslateX() and getTranslateY() after the dispatch differ
  from their values before it by rounding errors only: by at most \<open>2^-49\<close> times the
  sum of the magnitudes of old centroid, new centroid, centroidStart and centroidShift,
  plus \<open>2^-1071\<close>; they are equal when these four are whole numbers up to \<open>2^50\<close>.
  The contact list is not empty and the magnitudes are moderate.
\<close>

theorem contact_change_keeps_translation:
  assumes "getState r = CHANGED"
    and "targetTouches e \<noteq> []"
    and "moderateEvent e"
    and "moderate (getPageX r)" and "moderate (getPageY r)"
    and "moderate (centroidStartX r)" and "moderate (centroidStartY r)"
    and "moderate (centroidShiftX r)" and "moderate (centroidShiftY r)"
  shows "(int (length (targetTouches e)) \<le> maxTouchCount r \<longrightarrow>
            getPageX (touchesBegan e r) = centroidX (targetTouches e)
          \<and> getPageY (touchesBegan e r) = centroidY (targetTouches e)
          \<and> getState (touchesBegan e r) = CHANGED
          \<and> callbacks (touchesBegan e r) = callbacks r
          \<and> keepsTranslation r (touchesBegan e r))
       \<and> (minTouchCount r \<le> int (length (targetTouches e)) \<longrightarrow>
            getPageX (touchesEnded e r) = centroidX (targetTouches e)
          \<and> getPageY (touchesEnded e r) = centroidY (targetTouches e)
          \<and> getState (touchesEnded e r) = CHANGED
          \<and> callbacks (touchesEnded e r) = callbacks r
          \<and> keepsTranslation r (touchesEnded e r))"
proof (intro conjI impI)
  assume "int (length (targetTouches e)) \<le> maxTouchCount r"
  then show "keepsTranslation r (touchesBegan e r)"
    using assms
    by (intro keepsTranslation_fold [where px' = "centroidX (targetTouches e)"
          and py' = "centroidY (targetTouches e)"])
      (simp_all add: touchesBegan_def base_defs Let_def)
next
  assume "minTouchCount r \<le> int (length (targetTouches e))"
  then show "keepsTranslation r (touchesEnded e r)"
    using assms
    by (intro keepsTranslation_fold [where px' = "centroidX (targetTouches e)"
          and py' = "centroidY (targetTouches e)"])
      (simp_all add: touchesEnded_def base_defs Let_def)
qed (use assms in \<open>simp_all add: touchesBegan_def touchesEnded_def base_defs Let_def\<close>)

text \<open>
  C3 on the scenario: in CHANGED at (105,108) with translation (5,0), a second contact
  at (205,308) moves the centroid to (155,208), and lifting the first contact moves it
  to (205,308); the translation is (5,0) after either event.
\<close>

theorem contact_change_keeps_translation_witness:
  "(let r = touchesMoved (event [touch 0 105 108])
              (touchesMoved (event [touch 0 100 108])
                 (touchesBegan (event [touch 0 100 100]) PanRecognizer_new));
        e2 = event [touch 0 105 108, touch 1 205 308];
        e1 = event [touch 1 205 308]
    in getState r = CHANGED
     \<and> int (length (targetTouches e2)) \<le> maxTouchCount r
     \<and> minTouchCount r \<le> int (length (targetTouches e1))
     \<and> moderateEvent e2 \<and> moderateEvent e1
     \<and> moderate (getPageX r) \<and> moderate (getPageY r)
     \<and> moderate (centroidStartX r) \<and> moderate (centroidStartY r)
     \<and> moderate (centroidShiftX r) \<and> moderate (centroidShiftY r)
     \<and> getPageX r = 105 \<and> getPageY r = 108
     \<and> getTranslateX r = 5 \<and> getTranslateY r = 0
     \<and> getPageX (touchesBegan e2 r) = 155 \<and> getPageY (touchesBegan e2 r) = 208
     \<and> keepsTranslation r (touchesBegan e2 r)
     \<and> getTranslateX (touchesBegan e2 r) = 5 \<and> getTranslateY (touchesBegan e2 r) = 0
     \<and> getPageX (touchesEnded e1 r) = 205 \<and> getPageY (touchesEnded e1 r) = 308
     \<and> keepsTranslation r (touchesEnded e1 r)
     \<and> getTranslateX (touchesEnded e1 r) = 5 \<and> getTranslateY (touchesEnded e1 r) = 0)"
  unfolding scenario_began scenario_first_move scenario_second_move Let_def
  using contact_change_keeps_translation
      [of "PanRecognizer_new\<lparr>state := CHANGED, centroidPageX := 105, centroidPageY := 108,
             callbacks := [BEGAN, CHANGED, CHANGED], centroidStartX := 100,
             centroidStartY := 108, centroidDistance := 13\<rparr>"
          "event [touch 0 105 108, touch 1 205 308]"]
    contact_change_keeps_translation
      [of "PanRecognizer_new\<lparr>state := CHANGED, centroidPageX := 105, centroidPageY := 108,
             callbacks := [BEGAN, CHANGED, CHANGED], centroidStartX := 100,
             centroidStartY := 108, centroidDistance := 13\<rparr>"
          "event [touch 1 205 308]"]
  by (simp add: dispatch_defs centroid_defs PanRecognizer_new_def moderate_defs Let_def)

text \<open>
  C3 as stated ("equal") fails: in CHANGED at (8,0) with centroidStart (7,0) the
  translation in x is 1; contacts at x = 8, 1, 1 put the centroid at
  3.3333333333333335, and the translation in x is 0.9999999999999996 afterwards.
\<close>

theorem contact_change_translation_rounding_counterexample:
  "getState
     (touchesMoved (event [touch 0 8 0])
        (touchesMoved (event [touch 0 7 0])
           (touchesBegan (event [touch 0 0 0]) PanRecognizer_new))) = CHANGED
   \<and> int (length (targetTouches (event [touch 0 8 0, touch 1 1 0, touch 2 1 0])))
       \<le> maxTouchCount
            (touchesMoved (event [touch 0 8 0])
               (touchesMoved (event [touch 0 7 0])
                  (touchesBegan (event [touch 0 0 0]) PanRecognizer_new)))
   \<and> getTranslateX
       (touchesMoved (event [touch 0 8 0])
          (touchesMoved (event [touch 0 7 0])
             (touchesBegan (event [touch 0 0 0]) PanRecognizer_new))) = 1
   \<and> getTranslateX
       (touchesBegan (event [touch 0 8 0, touch 1 1 0, touch 2 1 0])
          (touchesMoved (event [touch 0 8 0])
             (touchesMoved (event [touch 0 7 0])
                (touchesBegan (event [touch 0 0 0]) PanRecognizer_new)))) =
       2251799813685247 / 2251799813685248"
  by (simp add: dispatch_defs centroid_defs PanRecognizer_new_def rounding_facts Let_def)

subsection \<open>Too many contacts\<close>

text \<open>
  C4 (as the code has it). A touchesBegan event that arrives while the recognizer is in
  CHANGED, with a contact count above maximumTouchCount: the recognizer transitions to
  ENDED (one callback) and centroidStart, centroidShift and centroidDistance are reset to
  zero, the recognizer being back in POSSIBLE.
\<close>

theorem touchesBegan_over_maximum_while_changed:
  assumes "getState r = CHANGED"
    and "int (length (targetTouches e)) > maxTouchCount r"
  shows "callbacks (touchesBegan e r) = callbacks r @ [ENDED]
       \<and> centroidStartX (touchesBegan e r) = 0
       \<and> centroidStartY (touchesBegan e r) = 0
       \<and> centroidShiftX (touchesBegan e r) = 0
       \<and> centroidShiftY (touchesBegan e r) = 0
       \<and> centroidDistance (touchesBegan e r) = 0
       \<and> getState (touchesBegan e r) = POSSIBLE"
  using assms by (simp add: dispatch_defs Let_def)

text \<open>
  C4 on a recognizer with maximumTouchCount = 1 that is in CHANGED after a move of 8:
  a second contact ends the gesture and zeroes the accumulators.
\<close>

theorem touchesBegan_over_maximum_while_changed_witness:
  "(let r = touchesMoved (event [touch 0 0 8])
              (touchesBegan (event [touch 0 0 0])
                 (snd (setMaximumTouchCount (Finite 1) PanRecognizer_new)));
        e = event [touch 0 0 8, touch 1 10 8]
    in getState r = CHANGED
     \<and> int (length (targetTouches e)) > maxTouchCount r
     \<and> centroidStartY r = 8 \<and> centroidDistance r = 8
     \<and> callbacks r = [BEGAN, CHANGED]
     \<and> callbacks (touchesBegan e r) = [BEGAN, CHANGED, ENDED]
     \<and> centroidStartX (touchesBegan e r) = 0
     \<and> centroidStartY (touchesBegan e r) = 0
     \<and> centroidShiftX (touchesBegan e r) = 0
     \<and> centroidShiftY (touchesBegan e r) = 0
     \<and> centroidDistance (touchesBegan e r) = 0
     \<and> getState (touchesBegan e r) = POSSIBLE)"
  unfolding setMaximum_1_new snd_conv limited_began limited_move_8 Let_def
  using touchesBegan_over_maximum_while_changed
      [of "PanRecognizer_new\<lparr>state := CHANGED, centroidPageY := 8,
             callbacks := [BEGAN, CHANGED], maxTouchCount := 1, centroidStartY := 8,
             centroidDistance := 8\<rparr>"
          "event [touch 0 0 8, touch 1 10 8]"]
  by (simp add: base_defs PanRecognizer_new_def)

text \<open>
  C4 as stated ("regardless of which state") fails in POSSIBLE: with
  maximumTouchCount = 1 and a distance of 3 accumulated by one contact, a touchesBegan
  event with two contacts invokes no callback (no transition to ENDED) and leaves
  centroidDistance at 3.
\<close>

theorem touchesBegan_over_maximum_while_possible_counterexample:
  "getState (touchesMoved (event [touch 0 0 3])
              (touchesBegan (event [touch 0 0 0])
                 (snd (setMaximumTouchCount (Finite 1) PanRecognizer_new)))) = POSSIBLE
   \<and> int (length (targetTouches (event [touch 0 0 3, touch 1 10 3])))
       > maxTouchCount (touchesMoved (event [touch 0 0 3])
              (touchesBegan (event [touch 0 0 0])
                 (snd (setMaximumTouchCount (Finite 1) PanRecognizer_new))))
   \<and> callbacks (touchesBegan (event [touch 0 0 3, touch 1 10 3])
        (touchesMoved (event [touch 0 0 3])
           (touchesBegan (event [touch 0 0 0])
              (snd (setMaximumTouchCount (Finite 1) PanRecognizer_new))))) = []
   \<and> centroidDistance (touchesBegan (event [touch 0 0 3, touch 1 10 3])
        (touchesMoved (event [touch 0 0 3])
           (touchesBegan (event [touch 0 0 0])
              (snd (setMaximumTouchCount (Finite 1) PanRecognizer_new))))) = 3"
  unfolding setMaximum_1_new snd_conv limited_began limited_move_3
  by (simp add: dispatch_defs centroid_defs PanRecognizer_new_def)

subsection \<open>Events outside the touch range\<close>

text \<open>
  C5. A touchesMoved event whose contact count is strictly below minimumTouchCount or
  strictly above maximumTouchCount is ignored entirely: the recognizer is returned as it
  was, so its state, tracked centroid, centroidStart, centroidShift and
  centroidDistance are unchanged and the callback log has no new entry.
\<close>

theorem touchesMoved_out_of_range_ignored:
  assumes "int (length (targetTouches e)) < minTouchCount r
         \<or> int (length (targetTouches e)) > maxTouchCount r"
  shows "touchesMoved e r = r"
  using assms by (simp add: touchesMoved_def)

text \<open>
  C5 on both sides of the range: one contact with minimumTouchCount = 2, and two
  contacts with maximumTouchCount = 1.
\<close>

theorem touchesMoved_out_of_range_ignored_witness:
  "(let r = snd (setMinimumTouchCount (Finite 2) PanRecognizer_new);
        e = event [touch 0 5 5]
    in int (length (targetTouches e)) < minTouchCount r \<and> touchesMoved e r = r)
   \<and> (let r = snd (setMaximumTouchCount (Finite 1) PanRecognizer_new);
        e = event [touch 0 5 5, touch 1 9 9]
    in int (length (targetTouches e)) > maxTouchCount r \<and> touchesMoved e r = r)"
  unfolding setMinimum_2_new setMaximum_1_new Let_def
  using touchesMoved_out_of_range_ignored
      [of "event [touch 0 5 5]" "PanRecognizer_new\<lparr>minTouchCount := 2\<rparr>"]
    touchesMoved_out_of_range_ignored
      [of "event [touch 0 5 5, touch 1 9 9]" "PanRecognizer_new\<lparr>maxTouchCount := 1\<rparr>"]
  by (simp add: PanRecognizer_new_def)

subsection \<open>Moves while CHANGED\<close>

text \<open>
  C6. While the recognizer is in CHANGED and the contact count is within
  [minimumTouchCount, maximumTouchCount], a touchesMoved dispatch moves the tracked
  centroid to that of the event and invokes the callback for CHANGED if and only if that
  centroid differs from the old one in x or in y; with no displacement the callback
  log is unchanged. The recognizer stays in CHANGED either way, centroidStart and the
  shift as they were. The old centroid is a binary64 value, as every number of the
  source is; the contact list is not empty and the magnitudes are moderate.
\<close>

theorem touchesMoved_changed_refires:
  assumes "getState r = CHANGED"
    and "minTouchCount r \<le> int (length (targetTouches e))"
    and "int (length (targetTouches e)) \<le> maxTouchCount r"
    and "targetTouches e \<noteq> []"
    and "moderateEvent e"
    and "representable (getPageX r)" and "representable (getPageY r)"
    and "moderate (getPageX r)" and "moderate (getPageY r)"
  shows "(let r' = touchesMoved e r
          in getPageX r' = centroidX (targetTouches e)
           \<and> getPageY r' = centroidY (targetTouches e)
           \<and> getState r' = CHANGED
           \<and> callbacks r' =
               (if centroidX (targetTouches e) \<noteq> getPageX r
                   \<or> centroidY (targetTouches e) \<noteq> getPageY r
                then callbacks r @ [CHANGED] else callbacks r)
           \<and> centroidStartX r' = centroidStartX r \<and> centroidStartY r' = centroidStartY r
           \<and> centroidShiftX r' = centroidShiftX r \<and> centroidShiftY r' = centroidShiftY r)"
  using assms by (simp add: flow_defs Let_def sub64_eq_0_iff)

text \<open>
  C6 on the scenario, in CHANGED at (100,108): a move to (100,108) adds no callback; a
  move to (105,108) adds one; a second contact at (100,110), which moves the centroid
  vertically to (100,109), adds one; two contacts at (90,108) and (110,108), whose
  centroid is (100,108), add none.
\<close>

theorem touchesMoved_changed_refires_witness:
  "(let r = touchesMoved (event [touch 0 100 108])
              (touchesBegan (event [touch 0 100 100]) PanRecognizer_new)
    in getState r = CHANGED \<and> callbacks r = [BEGAN, CHANGED]
     \<and> getPageX r = 100 \<and> getPageY r = 108
     \<and> representable (getPageX r) \<and> representable (getPageY r)
     \<and> moderate (getPageX r) \<and> moderate (getPageY r)
     \<and> minTouchCount r \<le> 1 \<and> 2 \<le> maxTouchCount r
     \<and> moderateEvent (event [touch 0 100 108])
     \<and> moderateEvent (event [touch 0 105 108])
     \<and> moderateEvent (event [touch 0 100 108, touch 1 100 110])
     \<and> moderateEvent (event [touch 0 90 108, touch 1 110 108])
     \<and> callbacks (touchesMoved (event [touch 0 100 108]) r) = [BEGAN, CHANGED]
     \<and> callbacks (touchesMoved (event [touch 0 105 108]) r) = [BEGAN, CHANGED, CHANGED]
     \<and> callbacks (touchesMoved (event [touch 0 100 108, touch 1 100 110]) r) =
         [BEGAN, CHANGED, CHANGED]
     \<and> getPageY (touchesMoved (event [touch 0 100 108, touch 1 100 110]) r) = 109
     \<and> callbacks (touchesMoved (event [touch 0 90 108, touch 1 110 108]) r) =
         [BEGAN, CHANGED])"
  unfolding scenario_began scenario_first_move Let_def
  using touchesMoved_changed_refires
      [of "PanRecognizer_new\<lparr>state := CHANGED, centroidPageX := 100, centroidPageY := 108,
             callbacks := [BEGAN, CHANGED], centroidStartX := 100, centroidStartY := 108,
             centroidDistance := 8\<rparr>"
          "event [touch 0 100 108]"]
    touchesMoved_changed_refires
      [of "PanRecognizer_new\<lparr>state := CHANGED, centroidPageX := 100, centroidPageY := 108,
             callbacks := [BEGAN, CHANGED], centroidStartX := 100, centroidStartY := 108,
             centroidDistance := 8\<rparr>"
          "event [touch 0 105 108]"]
    touchesMoved_changed_refires
      [of "PanRecognizer_new\<lparr>state := CHANGED, centroidPageX := 100, centroidPageY := 108,
             callbacks := [BEGAN, CHANGED], centroidStartX := 100, centroidStartY := 108,
             centroidDistance := 8\<rparr>"
          "event [touch 0 100 108, touch 1 100 110]"]
    touchesMoved_changed_refires
      [of "PanRecognizer_new\<lparr>state := CHANGED, centroidPageX := 100, centroidPageY := 108,
             callbacks := [BEGAN, CHANGED], centroidStartX := 100, centroidStartY := 108,
             centroidDistance := 8\<rparr>"
          "event [touch 0 90 108, touch 1 110 108]"]
  by (simp add: base_defs PanRecognizer_new_def Let_def centroid_defs arith_defs
        representable_def moderate_defs)

subsection \<open>Cancellation\<close>

text \<open>
  C7. A touchesCancelled event, in whatever state the recognizer is, sets the state
  CANCELLED (one callback, for CANCELLED) and then resets: centroidStart, centroidShift
  and centroidDistance are zero afterwards and the recognizer is back in POSSIBLE.
\<close>

theorem touchesCancelled_cancels_and_resets:
  "callbacks (touchesCancelled e r) = callbacks r @ [CANCELLED]
   \<and> centroidStartX (touchesCancelled e r) = 0
   \<and> centroidStartY (touchesCancelled e r) = 0
   \<and> centroidShiftX (touchesCancelled e r) = 0
   \<and> centroidShiftY (touchesCancelled e r) = 0
   \<and> centroidDistance (touchesCancelled e r) = 0
   \<and> getState (touchesCancelled e r) = POSSIBLE"
  by (simp add: touchesCancelled_def reset_def base_defs)

subsection \<open>The setters\<close>

text \<open>
  C8 (as the code has it). For a supplied value x with -2147483649 < x < 2147483648,
  the range on which \<^verbatim>\<open>value |= 0\<close> is the truncation towards zero:
  setMinimumTouchCount and setMaximumTouchCount succeed exactly when the state is
  POSSIBLE and the truncated value is at least 1, and then the parameter is that value;
  in any other state, or with such a value below 1, the call fails an assertion and the
  recognizer is as it was, the parameter not updated.
\<close>

theorem setters_succeed_iff:
  assumes "- 2147483649 < x" and "x < 2147483648"
  shows "setMinimumTouchCount (Finite x) r =
           (if getState r = POSSIBLE \<and> 1 \<le> trunc x
            then (Inr (), r\<lparr>minTouchCount := trunc x\<rparr>)
            else (Inl AssertionError, r))
       \<and> setMaximumTouchCount (Finite x) r =
           (if getState r = POSSIBLE \<and> 1 \<le> trunc x
            then (Inr (), r\<lparr>maxTouchCount := trunc x\<rparr>)
            else (Inl AssertionError, r))
       \<and> (getState r \<noteq> POSSIBLE \<or> x < 1 \<longrightarrow>
            setMinimumTouchCount (Finite x) r = (Inl AssertionError, r)
          \<and> setMaximumTouchCount (Finite x) r = (Inl AssertionError, r))"
  using assms trunc_below_one [of x]
  by (auto simp add: setter_defs Let_def ToInt32_in_range)

text \<open>
  C8 on a new recognizer (2 is stored; 0 and -3 fail the value assertion) and on one in
  CHANGED (the state assertion fails).
\<close>

theorem setters_succeed_iff_witness:
  "- 2147483649 < (2 :: real) \<and> (2 :: real) < 2147483648
   \<and> setMinimumTouchCount (Finite 2) PanRecognizer_new =
     (Inr (), PanRecognizer_new\<lparr>minTouchCount := 2\<rparr>)
   \<and> setMaximumTouchCount (Finite 2) PanRecognizer_new =
     (Inr (), PanRecognizer_new\<lparr>maxTouchCount := 2\<rparr>)
   \<and> setMaximumTouchCount (Finite 0) PanRecognizer_new =
     (Inl AssertionError, PanRecognizer_new)
   \<and> setMinimumTouchCount (Finite (- 3)) PanRecognizer_new =
     (Inl AssertionError, PanRecognizer_new)
   \<and> setMinimumTouchCount (Finite 2) (PanRecognizer_new\<lparr>state := CHANGED\<rparr>) =
     (Inl AssertionError, PanRecognizer_new\<lparr>state := CHANGED\<rparr>)"
  using setters_succeed_iff [of 2 PanRecognizer_new]
    setters_succeed_iff [of 0 PanRecognizer_new]
    setters_succeed_iff [of "- 3" PanRecognizer_new]
    setters_succeed_iff [of 2 "PanRecognizer_new\<lparr>state := CHANGED\<rparr>"]
  by (simp add: trunc_def getState_def PanRecognizer_new_def)

text \<open>
  C8 as stated fails beyond 32 bits: in POSSIBLE the value 4294967296, whose truncation
  is at least 1, converts to 0 and fails the assertion; the value -4294967294.5, below
  1, converts to 2 and is stored.
\<close>

theorem setters_wrap_counterexample:
  "getState PanRecognizer_new = POSSIBLE
   \<and> 1 \<le> trunc 4294967296
   \<and> setMaximumTouchCount (Finite 4294967296) PanRecognizer_new =
       (Inl AssertionError, PanRecognizer_new)
   \<and> (- 4294967294.5 :: real) < 1
   \<and> setMinimumTouchCount (Finite (- 4294967294.5)) PanRecognizer_new =
       (Inr (), PanRecognizer_new\<lparr>minTouchCount := 2\<rparr>)"
  by (simp add: setter_defs ToInt32_def trunc_def getState_def PanRecognizer_new_def)

subsection \<open>Contacts lifting outside CHANGED\<close>

text \<open>
  C9. A touchesEnded event dispatched while the state is not CHANGED leaves every field
  of the recognizer unchanged. In particular centroidDistance is kept when the last
  contact lifts in POSSIBLE: in the next touch sequence (a touchesBegan, then a
  touchesMoved within the touch range) the distance of the move is added to the
  distance kept, each operation rounded, and BEGAN fires if and only if that sum
  exceeds moveHysteresis, so the new movement needed is smaller by what was
  accumulated before.
\<close>

theorem touchesEnded_not_changed_frame:
  assumes "getState r \<noteq> CHANGED"
  shows "touchesEnded e r = r
       \<and> (getState r = POSSIBLE
            \<and> minTouchCount r \<le> int (length (targetTouches em))
            \<and> int (length (targetTouches em)) \<le> maxTouchCount r
            \<and> targetTouches eb \<noteq> [] \<and> targetTouches em \<noteq> [] \<longrightarrow>
          (let r' = touchesMoved em (touchesBegan eb (touchesEnded e r));
               dx = sub64 (centroidX (targetTouches em)) (centroidX (targetTouches eb));
               dy = sub64 (centroidY (targetTouches em)) (centroidY (targetTouches eb))
           in centroidDistance r' =
                add64 (centroidDistance r) (sqrt64 (add64 (mul64 dx dx) (mul64 dy dy)))
            \<and> (BEGAN \<in> set (drop (length (callbacks r)) (callbacks r')) \<longleftrightarrow>
                 moveHysteresis r <
                   add64 (centroidDistance r)
                     (sqrt64 (add64 (mul64 dx dx) (mul64 dy dy))))))"
  using assms by (simp add: flow_defs Let_def)

text \<open>
  C9 on two touch sequences: a contact moves by 4 and lifts, nothing changes on the
  lift; a new contact then crosses the threshold of 6 with a move of 3, which on a new
  recognizer does not begin the gesture.
\<close>

theorem touchesEnded_not_changed_frame_witness:
  "(let r = touchesMoved (event [touch 0 0 4])
              (touchesBegan (event [touch 0 0 0]) PanRecognizer_new);
        lifted = touchesEnded (event []) r;
        again = touchesMoved (event [touch 1 50 53])
                  (touchesBegan (event [touch 1 50 50]) lifted);
        fresh = touchesMoved (event [touch 1 50 53])
                  (touchesBegan (event [touch 1 50 50]) PanRecognizer_new)
    in getState r = POSSIBLE \<and> centroidDistance r = 4
     \<and> lifted = r
     \<and> centroidDistance again = 7 \<and> callbacks again = [BEGAN, CHANGED]
     \<and> centroidDistance fresh = 3 \<and> callbacks fresh = [])"
  using touchesEnded_not_changed_frame
      [where r = "touchesMoved (event [touch 0 0 4])
                    (touchesBegan (event [touch 0 0 0]) PanRecognizer_new)"
         and e = "event []"
         and eb = "event [touch 1 50 50]"
         and em = "event [touch 1 50 53]"]
  by (simp add: dispatch_defs centroid_defs PanRecognizer_new_def sqrt_16 sqrt_9 Let_def)

subsection \<open>What the setters store\<close>

text \<open>
  C10 (as the code has it). For an argument x with -2147483649 < x < 2147483648, the
  range on which \<^verbatim>\<open>value |= 0\<close> is the truncation towards zero: in POSSIBLE either
  setter stores the truncated integer when it is at least 1 (2.9 stores 2) and fails the
  value assertion otherwise; in particular every such x below 1, as 0.5 which truncates
  to 0, fails the assertion. The truncation happens before the check and before the
  store.
\<close>

theorem setters_truncate_in_int32_range:
  assumes "- 2147483649 < x" and "x < 2147483648"
    and "getState r = POSSIBLE"
  shows "ToInt32 (Finite x) = trunc x
       \<and> setMinimumTouchCount (Finite x) r =
           (if 1 \<le> trunc x then (Inr (), r\<lparr>minTouchCount := trunc x\<rparr>)
            else (Inl AssertionError, r))
       \<and> setMaximumTouchCount (Finite x) r =
           (if 1 \<le> trunc x then (Inr (), r\<lparr>maxTouchCount := trunc x\<rparr>)
            else (Inl AssertionError, r))
       \<and> (x < 1 \<longrightarrow> setMinimumTouchCount (Finite x) r = (Inl AssertionError, r)
                  \<and> setMaximumTouchCount (Finite x) r = (Inl AssertionError, r))"
  using assms trunc_below_one [of x]
  by (auto simp add: setter_defs Let_def ToInt32_in_range)

text \<open>C10 at 2.9, which stores 2, and at 0.5, which truncates to 0 and fails.\<close>

theorem setters_truncate_in_int32_range_witness:
  "- 2147483649 < (2.9 :: real) \<and> (2.9 :: real) < 2147483648
   \<and> - 2147483649 < (0.5 :: real) \<and> (0.5 :: real) < 1
   \<and> getState PanRecognizer_new = POSSIBLE
   \<and> setMinimumTouchCount (Finite 2.9) PanRecognizer_new =
     (Inr (), PanRecognizer_new\<lparr>minTouchCount := 2\<rparr>)
   \<and> setMaximumTouchCount (Finite 2.9) PanRecognizer_new =
     (Inr (), PanRecognizer_new\<lparr>maxTouchCount := 2\<rparr>)
   \<and> ToInt32 (Finite 0.5) = 0
   \<and> setMinimumTouchCount (Finite 0.5) PanRecognizer_new =
     (Inl AssertionError, PanRecognizer_new)
   \<and> setMaximumTouchCount (Finite 0.5) PanRecognizer_new =
     (Inl AssertionError, PanRecognizer_new)"
  using setters_truncate_in_int32_range [of "2.9" PanRecognizer_new]
    setters_truncate_in_int32_range [of "0.5" PanRecognizer_new]
  by (simp add: trunc_def getState_def PanRecognizer_new_def)

text \<open>
  C10 as stated ("for every fractional input") fails beyond 32 bits: the argument
  4294967298.5 truncates to 4294967298, and the setter stores 2.
\<close>

theorem setMinimumTouchCount_wraps_counterexample:
  "minTouchCount (snd (setMinimumTouchCount (Finite 4294967298.5) PanRecognizer_new)) = 2
   \<and> trunc 4294967298.5 = 4294967298"
  by (simp add: setter_defs ToInt32_def trunc_def getState_def PanRecognizer_new_def)

end
